theory Spec2Isabelle
  imports Complex_Main
begin

section \<open>Python values as they arrive from the CMS\<close>

text \<open>
  Both routines of \<^verbatim>\<open>utils.py\<close> work on whatever \<^verbatim>\<open>r.json()\<close> hands back, so the
  value universe is the one of Python's \<^verbatim>\<open>json\<close> module: \<^verbatim>\<open>None\<close>, \<^verbatim>\<open>bool\<close>,
  unbounded \<^verbatim>\<open>int\<close>, \<^verbatim>\<open>float\<close>, \<^verbatim>\<open>str\<close>, \<^verbatim>\<open>list\<close> and \<^verbatim>\<open>dict\<close> with string keys.
  A dict is an association list in insertion order; a lookup takes the first binding of
  a key. A float is a finite rational or one of the three special values that
  \<^verbatim>\<open>json.loads\<close> accepts (\<^verbatim>\<open>NaN\<close>, \<^verbatim>\<open>Infinity\<close>, \<^verbatim>\<open>-Infinity\<close>); only its truth
  value and its truncation to \<^verbatim>\<open>int\<close> are ever observed by the code.
  Strings are byte strings (ASCII).
\<close>

datatype pyfloat = Finite rat | NaN | PosInf | NegInf

datatype json =
    JNull
  | JBool bool
  | JInt int
  | JFloat pyfloat
  | JStr string
  | JList "json list"
  | JObj "(string \<times> json) list"

text \<open>The exceptions that none of the \<^verbatim>\<open>except\<close> clauses of a call site may catch.\<close>

datatype error = AttributeError | TypeError | ValueError | OverflowError

text \<open>Python's truth value testing, as used by \<^verbatim>\<open>or\<close>, \<^verbatim>\<open>not\<close> and \<^verbatim>\<open>if\<close>.\<close>

fun truthy :: "json \<Rightarrow> bool" where
  "truthy JNull = False"
| "truthy (JBool b) = b"
| "truthy (JInt n) = (n \<noteq> 0)"
| "truthy (JFloat f) = (f \<noteq> Finite 0)"
| "truthy (JStr s) = (s \<noteq> [])"
| "truthy (JList xs) = (xs \<noteq> [])"
| "truthy (JObj kvs) = (kvs \<noteq> [])"

text \<open>\<^verbatim>\<open>a or b\<close>: the first operand when it is true, the second otherwise.\<close>

definition py_or :: "json \<Rightarrow> json \<Rightarrow> json" where
  "py_or a b = (if truthy a then a else b)"

text \<open>\<^verbatim>\<open>d.get(k)\<close> and \<^verbatim>\<open>d.get(k, default)\<close> on a dict, and \<^verbatim>\<open>k in d\<close>.\<close>

definition dict_get_default :: "(string \<times> json) list \<Rightarrow> string \<Rightarrow> json \<Rightarrow> json" where
  "dict_get_default kvs k d = (case map_of kvs k of None \<Rightarrow> d | Some v \<Rightarrow> v)"

definition dict_get :: "(string \<times> json) list \<Rightarrow> string \<Rightarrow> json" where
  "dict_get kvs k = dict_get_default kvs k JNull"

definition has_key :: "(string \<times> json) list \<Rightarrow> string \<Rightarrow> bool" where
  "has_key kvs k = (map_of kvs k \<noteq> None)"

text \<open>
  Iteration (\<^verbatim>\<open>for x in v\<close>, \<^verbatim>\<open>list.extend(v)\<close>): a list gives its elements, a string
  its characters as one-character strings, a dict its keys; anything else raises
  \<^verbatim>\<open>TypeError\<close>.
\<close>

fun py_iter :: "json \<Rightarrow> error + json list" where
  "py_iter (JList xs) = Inr xs"
| "py_iter (JStr s) = Inr (map (\<lambda>c. JStr [c]) s)"
| "py_iter (JObj kvs) = Inr (map (\<lambda>kv. JStr (fst kv)) kvs)"
| "py_iter JNull = Inl TypeError"
| "py_iter (JBool b) = Inl TypeError"
| "py_iter (JInt n) = Inl TypeError"
| "py_iter (JFloat f) = Inl TypeError"

subsection \<open>\<^verbatim>\<open>int(x)\<close>\<close>

text \<open>
  \<^verbatim>\<open>int\<close> of a string: surrounding whitespace is stripped, one sign is allowed, then
  decimal digits with single underscores between digits. Everything else is a
  \<^verbatim>\<open>ValueError\<close>. (The interpreter's configurable cap on the number of digits is not
  part of the model.)
\<close>

definition is_space :: "char \<Rightarrow> bool" where
  "is_space c = (let n = (of_char c :: nat) in (9 \<le> n \<and> n \<le> 13) \<or> (28 \<le> n \<and> n \<le> 32))"

definition is_digit :: "char \<Rightarrow> bool" where
  "is_digit c = (let n = (of_char c :: nat) in 48 \<le> n \<and> n \<le> 57)"

definition digit_val :: "char \<Rightarrow> int" where
  "digit_val c = int (of_char c) - 48"

definition strip :: "string \<Rightarrow> string" where
  "strip s = rev (dropWhile is_space (rev (dropWhile is_space s)))"

fun parse_dec :: "int \<Rightarrow> bool \<Rightarrow> string \<Rightarrow> int option" where
  "parse_dec acc after_digit [] = (if after_digit then Some acc else None)"
| "parse_dec acc after_digit (c # cs) =
     (if is_digit c then parse_dec (10 * acc + digit_val c) True cs
      else if c = CHR ''_'' \<and> after_digit then parse_dec acc False cs
      else None)"

definition int_of_str :: "string \<Rightarrow> int option" where
  "int_of_str s =
     (case strip s of
        [] \<Rightarrow> None
      | c # cs \<Rightarrow>
          if c = CHR ''-'' then map_option uminus (parse_dec 0 False cs)
          else if c = CHR ''+'' then parse_dec 0 False cs
          else parse_dec 0 False (c # cs))"

text \<open>\<^verbatim>\<open>int\<close> of a float truncates towards zero; the special values raise.\<close>

definition trunc :: "rat \<Rightarrow> int" where
  "trunc r = (if 0 \<le> r then \<lfloor>r\<rfloor> else \<lceil>r\<rceil>)"

fun py_int :: "json \<Rightarrow> error + int" where
  "py_int (JInt n) = Inr n"
| "py_int (JBool b) = Inr (if b then 1 else 0)"
| "py_int (JFloat (Finite r)) = Inr (trunc r)"
| "py_int (JFloat NaN) = Inl ValueError"
| "py_int (JFloat PosInf) = Inl OverflowError"
| "py_int (JFloat NegInf) = Inl OverflowError"
| "py_int (JStr s) = (case int_of_str s of None \<Rightarrow> Inl ValueError | Some n \<Rightarrow> Inr n)"
| "py_int JNull = Inl TypeError"
| "py_int (JList xs) = Inl TypeError"
| "py_int (JObj kvs) = Inl TypeError"

section \<open>The CMS as seen through one \<^verbatim>\<open>requests.Session\<close>\<close>

text \<open>
  \<^verbatim>\<open>base_url\<close>, \<^verbatim>\<open>headers\<close> and \<^verbatim>\<open>timeout\<close> are the same for every request of a call
  and are left out. A request is what the call sends; the server is any function from
  the requests sent so far (the newest last) to what \<^verbatim>\<open>session.get\<close>,
  \<^verbatim>\<open>session.delete\<close> or \<^verbatim>\<open>session.post\<close> then does: raise a
  \<^verbatim>\<open>RequestException\<close>, or return a response with a status code, a text and a body that
  \<^verbatim>\<open>r.json()\<close> decodes (\<open>Some\<close>) or fails to decode (\<open>None\<close>).
\<close>

datatype library_param = FileName | Name | Search

datatype request =
    GetPlaylist int
  | DeleteWidget int
  | PostAssign int "int list"
  | GetLibrary library_param string

datatype http_result =
    Raised string
  | Response int string "json option"

type_synonym server = "request list \<Rightarrow> http_result"

text \<open>
  The three ways in which the block
  \<^verbatim>\<open>r = session.get(...); r.raise_for_status(); plist = r.json()\<close>
  leaves through \<^verbatim>\<open>except requests.exceptions.RequestException\<close>.
  \<^verbatim>\<open>raise_for_status\<close> raises \<^verbatim>\<open>HTTPError\<close> for the status codes 400 to 599 and for
  no others; \<^verbatim>\<open>r.json()\<close> raises the library's \<^verbatim>\<open>JSONDecodeError\<close>, which is a
  \<^verbatim>\<open>RequestException\<close>.
\<close>

datatype request_exception = RequestFailed string | HTTPError int | JSONDecodeError

definition fetch_json :: "http_result \<Rightarrow> request_exception + json" where
  "fetch_json res =
     (case res of
        Raised msg \<Rightarrow> Inl (RequestFailed msg)
      | Response status txt body \<Rightarrow>
          if 400 \<le> status \<and> status < 600 then Inl (HTTPError status)
          else (case body of None \<Rightarrow> Inl JSONDecodeError | Some j \<Rightarrow> Inr j))"

section \<open>\<^verbatim>\<open>assign_media_to_playlist\<close>\<close>

type_synonym widget_map = "(int \<times> int list) list"

text \<open>
  One constructor for each f-string that the function appends to \<^verbatim>\<open>notes\<close>, with the
  values the string interpolates.
\<close>

datatype note_entry =
    FailedToFetch request_exception
  | NotFoundOrEmpty int json
  | Discovered int widget_map
  | SkippingInvalid json
  | NoWidgetFound int
  | RequestErrorDeleting int string
  | DeletedWidget int int
  | FailedToDelete int int int string
  | AssignedNew int
  | FailedToAssign request_exception
  | NoWidgetsDiscovered int
  | NothingToAssign
  | AssignedCreated int

text \<open>
  The returned dict (its key \<^verbatim>\<open>notes\<close> is the field \<open>notes_list\<close>); \<^verbatim>\<open>None\<close> in
  \<^verbatim>\<open>assigned\<close> is \<open>JNull\<close>.
\<close>

record result =
  deleted :: "(int \<times> int) list"
  assigned :: json
  notes_list :: "note_entry list"

text \<open>\<^verbatim>\<open>widget_map.setdefault(k, []).append(v)\<close> and \<^verbatim>\<open>widget_map.get(k, [])\<close>.\<close>

fun map_append :: "widget_map \<Rightarrow> int \<Rightarrow> int \<Rightarrow> widget_map" where
  "map_append [] k v = [(k, [v])]"
| "map_append ((k', vs) # m) k v =
     (if k' = k then (k', vs @ [v]) # m else (k', vs) # map_append m k v)"

definition map_get :: "widget_map \<Rightarrow> int \<Rightarrow> int list" where
  "map_get m k = (case map_of m k of None \<Rightarrow> [] | Some vs \<Rightarrow> vs)"

text \<open>
  Lines 60 to 65: the loop over \<^verbatim>\<open>mids\<close>. \<^verbatim>\<open>int(mid)\<close> is guarded, \<^verbatim>\<open>int(wid)\<close>
  in the \<^verbatim>\<open>append\<close> is not.
\<close>

fun add_mids :: "json \<Rightarrow> json list \<Rightarrow> widget_map \<Rightarrow> error + widget_map" where
  "add_mids wid [] m = Inr m"
| "add_mids wid (mid # mids) m =
     (case py_int mid of
        Inl _ \<Rightarrow> add_mids wid mids m
      | Inr mid_int \<Rightarrow>
          (case py_int wid of
             Inl e \<Rightarrow> Inl e
           | Inr w \<Rightarrow> add_mids wid mids (map_append m mid_int w)))"

text \<open>Lines 54 to 58: where a widget's media references are taken from.\<close>

definition widget_mids :: "(string \<times> json) list \<Rightarrow> json" where
  "widget_mids w =
     (if has_key w ''mediaIds'' \<and> truthy (dict_get w ''mediaIds'')
      then py_or (dict_get w ''mediaIds'') (JList [])
      else if truthy (dict_get w ''mediaId'') then JList [dict_get w ''mediaId'']
      else JList [])"

text \<open>Line 50.\<close>

definition widget_id :: "(string \<times> json) list \<Rightarrow> json" where
  "widget_id w = py_or (dict_get w ''widgetId'') (dict_get w ''id'')"

text \<open>The body of the loop over \<^verbatim>\<open>widgets\<close>; \<^verbatim>\<open>w.get\<close> needs a dict.\<close>

definition add_widget :: "json \<Rightarrow> widget_map \<Rightarrow> error + widget_map" where
  "add_widget w m =
     (case w of
        JObj kvs \<Rightarrow>
          if \<not> truthy (widget_id kvs) then Inr m
          else (case py_iter (widget_mids kvs) of
                  Inl e \<Rightarrow> Inl e
                | Inr mids \<Rightarrow> add_mids (widget_id kvs) mids m)
      | _ \<Rightarrow> Inl AttributeError)"

fun scan_widgets :: "json list \<Rightarrow> widget_map \<Rightarrow> error + widget_map" where
  "scan_widgets [] m = Inr m"
| "scan_widgets (w # ws) m =
     (case add_widget w m of Inl e \<Rightarrow> Inl e | Inr m' \<Rightarrow> scan_widgets ws m')"

text \<open>Lines 43 to 46: \<^verbatim>\<open>widgets.extend(p.get(key, []) or [])\<close> for one key.\<close>

definition widgets_under :: "(string \<times> json) list \<Rightarrow> string \<Rightarrow> error + json list" where
  "widgets_under p key = py_iter (py_or (dict_get_default p key (JList [])) (JList []))"

definition collect_widgets :: "json \<Rightarrow> error + json list" where
  "collect_widgets p =
     (case p of
        JObj kvs \<Rightarrow>
          (case widgets_under kvs ''widgets'' of
             Inl e \<Rightarrow> Inl e
           | Inr ws1 \<Rightarrow>
               (case widgets_under kvs ''newWidgets'' of
                  Inl e \<Rightarrow> Inl e
                | Inr ws2 \<Rightarrow> Inr (ws1 @ ws2)))
      | _ \<Rightarrow> Inl AttributeError)"

text \<open>Step 2 of the function as a whole.\<close>

definition build_widget_map :: "json \<Rightarrow> error + widget_map" where
  "build_widget_map p =
     (case collect_widgets p of Inl e \<Rightarrow> Inl e | Inr ws \<Rightarrow> scan_widgets ws [])"

text \<open>
  The state of the deletion loops: the requests sent, \<^verbatim>\<open>deleted\<close> and \<^verbatim>\<open>notes\<close>.
  Lines 80 to 90 for the widgets of one old media id:
\<close>

type_synonym progress = "request list \<times> (int \<times> int) list \<times> note_entry list"

fun delete_widgets :: "server \<Rightarrow> int \<Rightarrow> int list \<Rightarrow> progress \<Rightarrow> progress" where
  "delete_widgets srv mid_int [] st = st"
| "delete_widgets srv mid_int (wid # wids) (sent, del, ns) =
     (let sent' = sent @ [DeleteWidget wid] in
      case srv sent' of
        Raised msg \<Rightarrow>
          delete_widgets srv mid_int wids (sent', del, ns @ [RequestErrorDeleting wid msg])
      | Response status txt body \<Rightarrow>
          if status = 200 \<or> status = 204
          then delete_widgets srv mid_int wids
                 (sent', del @ [(mid_int, wid)], ns @ [DeletedWidget wid mid_int])
          else delete_widgets srv mid_int wids
                 (sent', del, ns @ [FailedToDelete wid mid_int status txt]))"

text \<open>Lines 70 to 90: the loop over \<^verbatim>\<open>old_media_ids\<close>.\<close>

fun remove_old :: "server \<Rightarrow> widget_map \<Rightarrow> json list \<Rightarrow> progress \<Rightarrow> progress" where
  "remove_old srv wm [] st = st"
| "remove_old srv wm (mid # mids) (sent, del, ns) =
     (case py_int mid of
        Inl _ \<Rightarrow> remove_old srv wm mids (sent, del, ns @ [SkippingInvalid mid])
      | Inr mid_int \<Rightarrow>
          if map_get wm mid_int = []
          then remove_old srv wm mids (sent, del, ns @ [NoWidgetFound mid_int])
          else remove_old srv wm mids
                 (delete_widgets srv mid_int (map_get wm mid_int) (sent, del, ns)))"

text \<open>
  Lines 94 to 107 and 116 to 128: the assign call inside its \<^verbatim>\<open>try\<close>. \<open>sent\<close>,
  \<open>del\<close> and \<open>ns\<close> are the requests, \<^verbatim>\<open>deleted\<close> and \<^verbatim>\<open>notes\<close> so far, and
  \<open>done\<close> is the note of the success branch.
\<close>

definition assign_new ::
  "server \<Rightarrow> int \<Rightarrow> int list \<Rightarrow> progress \<Rightarrow> note_entry \<Rightarrow> result \<times> request list" where
  "assign_new srv playlist_id new_media_ids st done =
     (case st of
        (sent, del, ns) \<Rightarrow>
          (let sent' = sent @ [PostAssign playlist_id new_media_ids] in
           case fetch_json (srv sent') of
             Inl e \<Rightarrow>
               (\<lparr>deleted = del, assigned = JNull, notes_list = ns @ [FailedToAssign e]\<rparr>, sent')
           | Inr j \<Rightarrow>
               (\<lparr>deleted = del, assigned = j, notes_list = ns @ [done]\<rparr>, sent')))"

text \<open>Steps 3 and 4 (lines 68 to 108), entered when \<^verbatim>\<open>widget_map\<close> is not empty.\<close>

definition remove_and_assign ::
  "server \<Rightarrow> int \<Rightarrow> int list \<Rightarrow> json list \<Rightarrow> widget_map \<Rightarrow> result \<times> request list" where
  "remove_and_assign srv playlist_id new_media_ids old_media_ids wm =
     (case remove_old srv wm old_media_ids
             ([GetPlaylist playlist_id], [], [Discovered playlist_id wm]) of
        (sent, del, ns) \<Rightarrow>
          if new_media_ids \<noteq> []
          then assign_new srv playlist_id new_media_ids (sent, del, ns) (AssignedNew playlist_id)
          else (\<lparr>deleted = del, assigned = JNull, notes_list = ns\<rparr>, sent))"

text \<open>Step 5 (lines 111 to 128), reached when \<^verbatim>\<open>widget_map\<close> is empty.\<close>

definition assign_directly :: "server \<Rightarrow> int \<Rightarrow> int list \<Rightarrow> result \<times> request list" where
  "assign_directly srv playlist_id new_media_ids =
     (if new_media_ids = []
      then (\<lparr>deleted = [], assigned = JNull,
             notes_list = [NoWidgetsDiscovered playlist_id, NothingToAssign]\<rparr>,
            [GetPlaylist playlist_id])
      else assign_new srv playlist_id new_media_ids
             ([GetPlaylist playlist_id], [], [NoWidgetsDiscovered playlist_id])
             (AssignedCreated playlist_id))"

text \<open>
  The function. It returns the dict together with the requests it sent, or the
  exception that escapes it.
\<close>

definition assign_media_to_playlist ::
  "server \<Rightarrow> int \<Rightarrow> int list \<Rightarrow> json list \<Rightarrow> error + (result \<times> request list)" where
  "assign_media_to_playlist srv playlist_id new_media_ids old_media_ids =
     (case fetch_json (srv [GetPlaylist playlist_id]) of
        Inl e \<Rightarrow>
          Inr (\<lparr>deleted = [], assigned = JNull, notes_list = [FailedToFetch e]\<rparr>,
               [GetPlaylist playlist_id])
      | Inr plist \<Rightarrow>
          (case plist of
             JList (p # rest) \<Rightarrow>
               (case build_widget_map p of
                  Inl e \<Rightarrow> Inl e
                | Inr wm \<Rightarrow>
                    if wm \<noteq> []
                    then Inr (remove_and_assign srv playlist_id new_media_ids old_media_ids wm)
                    else Inr (assign_directly srv playlist_id new_media_ids))
           | _ \<Rightarrow>
               Inr (\<lparr>deleted = [], assigned = JNull,
                     notes_list = [NotFoundOrEmpty playlist_id plist]\<rparr>,
                    [GetPlaylist playlist_id])))"

section \<open>\<^verbatim>\<open>find_media_ids_for_names\<close>\<close>

text \<open>Line 163.\<close>

definition item_mid :: "(string \<times> json) list \<Rightarrow> json" where
  "item_mid item =
     py_or (py_or (dict_get item ''mediaId'') (dict_get item ''media_id'')) (dict_get item ''id'')"

text \<open>\<^verbatim>\<open>name in s\<close> for strings: \<^verbatim>\<open>name\<close> occurs in \<^verbatim>\<open>s\<close> as a contiguous piece.\<close>

fun starts_with :: "string \<Rightarrow> string \<Rightarrow> bool" where
  "starts_with s [] = True"
| "starts_with [] (c # cs) = False"
| "starts_with (d # ds) (c # cs) = (d = c \<and> starts_with ds cs)"

fun substring_of :: "string \<Rightarrow> string \<Rightarrow> bool" where
  "substring_of name [] = (name = [])"
| "substring_of name (c # cs) = (starts_with (c # cs) name \<or> substring_of name cs)"

text \<open>
  \<^verbatim>\<open>name in v\<close> for the other values that \<^verbatim>\<open>item.get("fileName") or ""\<close> may be:
  membership in a list, key membership in a dict, \<^verbatim>\<open>TypeError\<close> for the rest.
\<close>

fun py_in :: "string \<Rightarrow> json \<Rightarrow> error + bool" where
  "py_in name (JStr s) = Inr (substring_of name s)"
| "py_in name (JList xs) = Inr (JStr name \<in> set xs)"
| "py_in name (JObj kvs) = Inr (name \<in> set (map fst kvs))"
| "py_in name JNull = Inl TypeError"
| "py_in name (JBool b) = Inl TypeError"
| "py_in name (JInt n) = Inl TypeError"
| "py_in name (JFloat f) = Inl TypeError"

text \<open>Line 168, with the short-circuit evaluation of \<^verbatim>\<open>or\<close>.\<close>

definition item_matches :: "string \<Rightarrow> (string \<times> json) list \<Rightarrow> error + bool" where
  "item_matches name item =
     (if dict_get item ''fileName'' = JStr name then Inr True
      else if dict_get item ''name'' = JStr name then Inr True
      else py_in name (py_or (dict_get item ''fileName'') (JStr [])))"

text \<open>The body of the loop over \<^verbatim>\<open>data\<close>; \<^verbatim>\<open>acc\<close> is \<^verbatim>\<open>result[name]\<close>.\<close>

definition scan_item :: "string \<Rightarrow> json \<Rightarrow> int list \<Rightarrow> error + int list" where
  "scan_item name item acc =
     (case item of
        JObj kvs \<Rightarrow>
          if \<not> truthy (item_mid kvs) then Inr acc
          else (case item_matches name kvs of
                  Inl e \<Rightarrow> Inl e
                | Inr hit \<Rightarrow>
                    if hit then
                      (case py_int (item_mid kvs) of
                         Inl e \<Rightarrow> Inl e
                       | Inr n \<Rightarrow> Inr (acc @ [n]))
                    else Inr acc)
      | _ \<Rightarrow> Inl AttributeError)"

fun scan_items :: "string \<Rightarrow> json list \<Rightarrow> int list \<Rightarrow> error + int list" where
  "scan_items name [] acc = Inr acc"
| "scan_items name (item # items) acc =
     (case scan_item name item acc of
        Inl e \<Rightarrow> Inl e
      | Inr acc' \<Rightarrow> scan_items name items acc')"

text \<open>
  Lines 154 to 160: a request that raises, a status other than 200 and a body that does
  not decode all end in \<^verbatim>\<open>continue\<close>.
\<close>

definition library_data :: "http_result \<Rightarrow> json option" where
  "library_data res =
     (case res of
        Raised msg \<Rightarrow> None
      | Response status txt body \<Rightarrow> if status \<noteq> 200 then None else body)"

text \<open>Lines 153 to 171: the loop over \<^verbatim>\<open>tried\<close> for one name.\<close>

fun try_params ::
  "server \<Rightarrow> string \<Rightarrow> library_param list \<Rightarrow> request list \<Rightarrow> int list
     \<Rightarrow> error + (int list \<times> request list)" where
  "try_params srv name [] sent acc = Inr (acc, sent)"
| "try_params srv name (param # params) sent acc =
     (let sent' = sent @ [GetLibrary param name] in
      case library_data (srv sent') of
        None \<Rightarrow> try_params srv name params sent' acc
      | Some data \<Rightarrow>
          (case py_iter data of
             Inl e \<Rightarrow> Inl e
           | Inr items \<Rightarrow>
               (case scan_items name items acc of
                  Inl e \<Rightarrow> Inl e
                | Inr acc' \<Rightarrow>
                    if acc' \<noteq> [] then Inr (acc', sent')
                    else try_params srv name params sent' acc')))"

definition tried :: "library_param list" where
  "tried = [FileName, Name, Search]"

text \<open>\<^verbatim>\<open>result[name] = ...\<close> on a dict in insertion order.\<close>

fun dict_set :: "(string \<times> int list) list \<Rightarrow> string \<Rightarrow> int list \<Rightarrow> (string \<times> int list) list" where
  "dict_set [] k v = [(k, v)]"
| "dict_set ((k', v') # d) k v = (if k' = k then (k, v) # d else (k', v') # dict_set d k v)"

fun find_loop ::
  "server \<Rightarrow> string list \<Rightarrow> request list \<Rightarrow> (string \<times> int list) list
     \<Rightarrow> error + ((string \<times> int list) list \<times> request list)" where
  "find_loop srv [] sent res = Inr (res, sent)"
| "find_loop srv (name # names) sent res =
     (case try_params srv name tried sent [] of
        Inl e \<Rightarrow> Inl e
      | Inr (ids, sent') \<Rightarrow> find_loop srv names sent' (dict_set res name ids))"

definition find_media_ids_for_names ::
  "server \<Rightarrow> string list \<Rightarrow> error + ((string \<times> int list) list \<times> request list)" where
  "find_media_ids_for_names srv filenames = find_loop srv filenames [] []"

section \<open>The properties, as predicates\<close>



fun nonempty_collection :: "json \<Rightarrow> bool" where
  "nonempty_collection (JList (p # rest)) = True"
| "nonempty_collection j = False"








text \<open>
  The widget map that a call builds from what its fetch returns (empty when the call
  does not get that far).
\<close>

definition fetched_widget_map :: "server \<Rightarrow> int \<Rightarrow> widget_map" where
  "fetched_widget_map srv playlist_id =
     (case fetch_json (srv [GetPlaylist playlist_id]) of
        Inr (JList (p # rest)) \<Rightarrow> (case build_widget_map p of Inr wm \<Rightarrow> wm | Inl e \<Rightarrow> [])
      | _ \<Rightarrow> [])"

text \<open>
  The pairs that the deletion loops may record: a media id that some old id coerces to,
  with a widget id that the map lists for it.
\<close>

definition deletable :: "widget_map \<Rightarrow> json list \<Rightarrow> (int \<times> int) set" where
  "deletable wm olds = {(m, w). (\<exists>x \<in> set olds. py_int x = Inr m) \<and> w \<in> set (map_get wm m)}"









section \<open>Concrete servers\<close>



text \<open>
  A playlist with one widget whose \<^verbatim>\<open>widgetId\<close> is the string \<^verbatim>\<open>"abc"\<close> and whose
  \<^verbatim>\<open>mediaId\<close> is 5.
\<close>

definition srv_bad_widget_id :: server where
  "srv_bad_widget_id sent =
     Response 200 []
       (Some (JList [JObj [(''widgets'',
          JList [JObj [(''widgetId'', JStr ''abc''), (''mediaId'', JInt 5)]])]]))"

text \<open>
  A library whose only record is \<^verbatim>\<open>{"mediaId": "abc", "fileName": "a.mp4"}\<close>.
\<close>

definition srv_bad_media_id :: server where
  "srv_bad_media_id sent =
     Response 200 []
       (Some (JList [JObj [(''mediaId'', JStr ''abc''), (''fileName'', JStr ''a.mp4'')]]))"

text \<open>
  A playlist that uses every shape at once: a widget with the plural field, a widget
  identified by \<^verbatim>\<open>id\<close> with the singular field, and under \<^verbatim>\<open>newWidgets\<close> a widget
  that lists media 7 twice.
\<close>

definition playlist_mixed_fields :: "(string \<times> json) list" where
  "playlist_mixed_fields =
     [(''playlistId'', JInt 1),
      (''widgets'', JList
         [JObj [(''widgetId'', JInt 10), (''mediaIds'', JList [JInt 7, JInt 8])],
          JObj [(''id'', JInt 11), (''mediaId'', JInt 7)]]),
      (''newWidgets'', JList
         [JObj [(''widgetId'', JInt 12), (''mediaIds'', JList [JInt 7, JInt 7])]])]"

definition playlist_mixed :: json where
  "playlist_mixed = JObj playlist_mixed_fields"

text \<open>
  A CMS that serves this playlist, times out on every attempt to delete widget 10,
  deletes every other widget, and rejects the assignment.
\<close>

definition srv_stuck :: server where
  "srv_stuck sent =
     (case last sent of
        GetPlaylist pid \<Rightarrow> Response 200 [] (Some (JList [playlist_mixed]))
      | DeleteWidget wid \<Rightarrow>
          if wid = 10 then Raised ''timed out'' else Response 204 [] None
      | PostAssign pid ids \<Rightarrow> Response 500 ''Internal Server Error'' None
      | GetLibrary param name \<Rightarrow> Response 404 [] None)"












section \<open>Auxiliary facts\<close>



lemma not_nonempty_cases:
  "\<not> nonempty_collection plist \<Longrightarrow>
     (case plist of JList (p # rest) \<Rightarrow> f p rest | _ \<Rightarrow> g) = g"
  by (cases plist rule: nonempty_collection.cases) auto

subsection \<open>The deletion loops\<close>





lemma delete_widgets_deleted:
  "set (fst (snd (delete_widgets srv m wids (sent, del, ns)))) \<subseteq> set del \<union> {m} \<times> set wids"
proof (induction wids arbitrary: sent del ns)
  case Nil
  show ?case by simp
next
  case (Cons w ws)
  show ?case
  proof (cases "srv (sent @ [DeleteWidget w])")
    case (Raised msg)
    then show ?thesis using Cons.IH [of "sent @ [DeleteWidget w]" del] by auto
  next
    case (Response status rtext body)
    then show ?thesis
      using Cons.IH [of "sent @ [DeleteWidget w]" del]
            Cons.IH [of "sent @ [DeleteWidget w]" "del @ [(m, w)]"]
      by (cases "status = 200 \<or> status = 204") auto
  qed
qed

lemma deletable_Cons_mono: "deletable wm olds \<subseteq> deletable wm (x # olds)"
  by (auto simp: deletable_def)

lemma deletable_head: "py_int x = Inr m \<Longrightarrow> {m} \<times> set (map_get wm m) \<subseteq> deletable wm (x # olds)"
  by (auto simp: deletable_def)

lemma remove_old_deleted:
  "set (fst (snd (remove_old srv wm olds (sent, del, ns)))) \<subseteq> set del \<union> deletable wm olds"
proof (induction olds arbitrary: sent del ns)
  case Nil
  show ?case by simp
next
  case (Cons x xs)
  show ?case
  proof (cases "py_int x")
    case (Inl e)
    then show ?thesis
      using Cons.IH [of sent del] deletable_Cons_mono [of wm xs x] by auto
  next
    case (Inr m)
    show ?thesis
    proof (cases "map_get wm m = []")
      case True
      with Inr show ?thesis
        using Cons.IH [of sent del] deletable_Cons_mono [of wm xs x] by auto
    next
      case False
      obtain sent' del' ns' where
        dw: "delete_widgets srv m (map_get wm m) (sent, del, ns) = (sent', del', ns')"
        by (cases "delete_widgets srv m (map_get wm m) (sent, del, ns)") auto
      have "set del' \<subseteq> set del \<union> {m} \<times> set (map_get wm m)"
        using delete_widgets_deleted [of srv m "map_get wm m" sent del ns] dw by simp
      then have "set del' \<subseteq> set del \<union> deletable wm (x # xs)"
        using deletable_head [OF Inr, of wm xs] by blast
      moreover have "set (fst (snd (remove_old srv wm xs (sent', del', ns'))))
          \<subseteq> set del' \<union> deletable wm (x # xs)"
        using Cons.IH [of sent' del' ns'] deletable_Cons_mono [of wm xs x] by blast
      ultimately show ?thesis
        using Inr False dw by auto
    qed
  qed
qed


lemma assign_new_fields:
  "deleted (fst (assign_new srv pid new (sent, del, ns) d)) = del"
  "snd (assign_new srv pid new (sent, del, ns) d) = sent @ [PostAssign pid new]"
  by (simp_all add: assign_new_def Let_def split: sum.splits)

lemma remove_and_assign_deleted:
  "set (deleted (fst (remove_and_assign srv pid new olds wm))) \<subseteq> deletable wm olds"
proof -
  obtain sent del ns where
    ro: "remove_old srv wm olds ([GetPlaylist pid], [], [Discovered pid wm]) = (sent, del, ns)"
    by (cases "remove_old srv wm olds ([GetPlaylist pid], [], [Discovered pid wm])") auto
  have "set del \<subseteq> deletable wm olds"
    using remove_old_deleted [of srv wm olds "[GetPlaylist pid]" "[]" "[Discovered pid wm]"] ro
    by simp
  then show ?thesis
    by (simp add: remove_and_assign_def ro assign_new_fields)
qed

lemma assign_directly_deleted: "deleted (fst (assign_directly srv pid new)) = []"
  by (simp add: assign_directly_def assign_new_fields)

lemma assign_media_cases:
  assumes "assign_media_to_playlist srv pid new olds = Inr out"
  shows "(deleted (fst out) = []) \<or>
         (fetched_widget_map srv pid \<noteq> [] \<and>
          out = remove_and_assign srv pid new olds (fetched_widget_map srv pid))"
proof (cases "fetch_json (srv [GetPlaylist pid])")
  case (Inl e)
  with assms show ?thesis by (auto simp: assign_media_to_playlist_def)
next
  case (Inr plist)
  show ?thesis
  proof (cases "nonempty_collection plist")
    case False
    with Inr assms show ?thesis
      by (auto simp: assign_media_to_playlist_def not_nonempty_cases)
  next
    case True
    then obtain p rest where pl: "plist = JList (p # rest)"
      by (cases plist rule: nonempty_collection.cases) auto
    show ?thesis
    proof (cases "build_widget_map p")
      case (Inl e)
      with Inr pl assms show ?thesis by (simp add: assign_media_to_playlist_def)
    next
      case wm: (Inr wm)
      have f: "fetched_widget_map srv pid = wm"
        by (simp add: fetched_widget_map_def Inr pl wm)
      show ?thesis
      proof (cases "wm = []")
        case True
        with Inr pl wm assms show ?thesis
          by (auto simp: assign_media_to_playlist_def assign_directly_deleted)
      next
        case False
        with Inr pl wm assms f show ?thesis
          by (auto simp: assign_media_to_playlist_def)
      qed
    qed
  qed
qed


subsection \<open>The widget map\<close>



















subsection \<open>The lookup strategies\<close>






section \<open>The claims\<close>



text \<open>
  C2, at a failing input. The library answers with one record that matches the queried
  name and whose \<^verbatim>\<open>mediaId\<close> is the string \<^verbatim>\<open>"abc"\<close>: \<^verbatim>\<open>int(mid)\<close> on line 169
  stands outside every \<^verbatim>\<open>try\<close>, and the \<^verbatim>\<open>ValueError\<close> leaves
  \<^verbatim>\<open>find_media_ids_for_names\<close>.
\<close>

theorem C2_uncoercible_media_id_raises:
  "find_media_ids_for_names srv_bad_media_id [''a.mp4''] = Inl ValueError"
  by code_simp

text \<open>
  C3, at a failing input. The fetched playlist has one widget with a media reference
  and a \<^verbatim>\<open>widgetId\<close> that \<^verbatim>\<open>int\<close> rejects: \<^verbatim>\<open>int(wid)\<close> on line 65 stands outside
  the \<^verbatim>\<open>try\<close> that guards \<^verbatim>\<open>int(mid)\<close>, and the \<^verbatim>\<open>ValueError\<close> leaves
  \<^verbatim>\<open>assign_media_to_playlist\<close>.
\<close>

theorem C3_uncoercible_widget_id_raises:
  "assign_media_to_playlist srv_bad_widget_id 1 [] [] = Inl ValueError"
  by code_simp















text \<open>
  C10. In every result that the call returns, each deleted pair \<open>(m, w)\<close> has an
  element of \<^verbatim>\<open>old_media_ids\<close> that \<^verbatim>\<open>int\<close> coerces to \<open>m\<close>, and \<open>w\<close> is one of
  the widget ids that the map built from the fetched playlist lists for \<open>m\<close>. So nothing
  is deleted when \<^verbatim>\<open>old_media_ids\<close> is empty or that map is empty.
\<close>

theorem C10_deleted_pairs_come_from_map:
  assumes "assign_media_to_playlist srv playlist_id new_media_ids old_media_ids = Inr (res, sent)"
  shows "(\<forall>m w. (m, w) \<in> set (deleted res) \<longrightarrow>
            (\<exists>x. x \<in> set old_media_ids \<and> py_int x = Inr m) \<and>
            w \<in> set (map_get (fetched_widget_map srv playlist_id) m)) \<and>
         (old_media_ids = [] \<or> fetched_widget_map srv playlist_id = [] \<longrightarrow> deleted res = [])"
proof -
  let ?wm = "fetched_widget_map srv playlist_id"
  have sub: "set (deleted res) \<subseteq> deletable ?wm old_media_ids"
  proof (cases "deleted res = []")
    case True
    then show ?thesis by simp
  next
    case False
    then have "(res, sent) = remove_and_assign srv playlist_id new_media_ids old_media_ids ?wm"
      using assign_media_cases [OF assms] by simp
    then have "res = fst (remove_and_assign srv playlist_id new_media_ids old_media_ids ?wm)"
      by (metis fst_conv)
    then show ?thesis
      using remove_and_assign_deleted [of srv playlist_id new_media_ids old_media_ids ?wm]
      by simp
  qed
  have e1: "deletable ?wm [] = {}" by (simp add: deletable_def)
  have e2: "deletable [] old_media_ids = {}" by (simp add: deletable_def map_get_def)
  have "old_media_ids = [] \<or> ?wm = [] \<longrightarrow> deleted res = []"
    using sub e1 e2 by auto
  moreover have "\<forall>m w. (m, w) \<in> set (deleted res) \<longrightarrow>
            (\<exists>x. x \<in> set old_media_ids \<and> py_int x = Inr m) \<and> w \<in> set (map_get ?wm m)"
    using sub by (auto simp: deletable_def)
  ultimately show ?thesis by blast
qed

theorem C10_witness:
  "assign_media_to_playlist srv_stuck 1 [5] [JInt 7, JStr ''x'', JInt 9] =
     Inr (\<lparr>deleted = [(7, 11), (7, 12), (7, 12)], assigned = JNull,
           notes_list =
             [Discovered 1 [(7, [10, 11, 12, 12]), (8, [10])],
              RequestErrorDeleting 10 ''timed out'', DeletedWidget 11 7,
              DeletedWidget 12 7, DeletedWidget 12 7,
              SkippingInvalid (JStr ''x''), NoWidgetFound 9,
              FailedToAssign (HTTPError 500)]\<rparr>,
          [GetPlaylist 1, DeleteWidget 10, DeleteWidget 11, DeleteWidget 12,
           DeleteWidget 12, PostAssign 1 [5]]) \<and>
   (\<exists>x. x \<in> set [JInt 7, JStr ''x'', JInt 9] \<and> py_int x = Inr 7) \<and>
   11 \<in> set (map_get (fetched_widget_map srv_stuck 1) 7)"
proof -
  let ?res = "\<lparr>deleted = [(7, 11), (7, 12), (7, 12)], assigned = JNull,
           notes_list =
             [Discovered 1 [(7, [10, 11, 12, 12]), (8, [10])],
              RequestErrorDeleting 10 ''timed out'', DeletedWidget 11 7,
              DeletedWidget 12 7, DeletedWidget 12 7,
              SkippingInvalid (JStr ''x''), NoWidgetFound 9,
              FailedToAssign (HTTPError 500)]\<rparr>"
  have run: "assign_media_to_playlist srv_stuck 1 [5] [JInt 7, JStr ''x'', JInt 9] =
     Inr (?res, [GetPlaylist 1, DeleteWidget 10, DeleteWidget 11, DeleteWidget 12,
           DeleteWidget 12, PostAssign 1 [5]])"
    by code_simp
  have "(7, 11) \<in> set (deleted ?res)"
    by simp
  then have "(\<exists>x. x \<in> set [JInt 7, JStr ''x'', JInt 9] \<and> py_int x = Inr 7) \<and>
      11 \<in> set (map_get (fetched_widget_map srv_stuck 1) 7)"
    using C10_deleted_pairs_come_from_map [where srv = srv_stuck and playlist_id = 1, OF run]
    by blast
  with run show ?thesis by blast
qed

end
